theory Spec2Isabelle
  imports Complex_Main
begin

section \<open>Python values, dictionaries and snapshots\<close>

text \<open>
  The collectors exchange plain Python dictionaries. A constellation snapshot always has
  the same keys, so it is a record; a per-satellite position has a key set that depends
  on the collector that built it, so it stays a dictionary: an association list in
  insertion order from key to value. Python floats are modelled as real numbers, Python
  integers as \<open>int\<close>, and a \<open>datetime\<close> as a number of microseconds on the time line of
  the clock that produced it: an aware UTC \<open>datetime\<close> counts from 0001-01-01T00:00, a
  naive one from the instant its \<open>timestamp()\<close> calls zero. \<open>PTime t\<close> stands for the
  ISO 8601 text that \<open>isoformat\<close> makes of the instant \<open>t\<close>. Rounding, infinities and
  NaN of floating point have no counterpart in the model. Console output and logging
  are not part of the model.
\<close>

datatype pyval = PNone | PInt int | PFloat real | PStr string | PTime int

type_synonym pydict = "(string \<times> pyval) list"

type_synonym datetime = int

definition py_get :: "pydict \<Rightarrow> string \<Rightarrow> pyval \<Rightarrow> pyval" where
  "py_get d k dflt = (case map_of d k of None \<Rightarrow> dflt | Some v \<Rightarrow> v)"

fun py_set :: "pydict \<Rightarrow> string \<Rightarrow> pyval \<Rightarrow> pydict" where
  "py_set [] k v = [(k, v)]"
| "py_set ((k', v') # d) k v = (if k' = k then (k, v) # d else (k', v') # py_set d k v)"

record snapshot =
  timestamp :: datetime
  satellite_count :: int
  positions_calculated :: int
  positions :: "pydict list"
  data_source :: string
  tle_age_hours :: real
  note_field :: "string option"
  coverage :: "pydict option"

subsection \<open>Decimal rendering of a natural number (Python's \<open>str\<close> inside an f-string)\<close>

definition digit_char :: "nat \<Rightarrow> char" where
  "digit_char d = char_of (48 + d)"

function str_of_nat :: "nat \<Rightarrow> string" where
  "str_of_nat n = (if n < 10 then [digit_char n] else str_of_nat (n div 10) @ [digit_char (n mod 10)])"
  by pat_completeness auto
termination
  by (relation "measure (\<lambda>n. n)") auto

declare str_of_nat.simps [simp del]

section \<open>The multi-source resolver (enhanced\_satellites.py)\<close>

record enhanced_collector =
  satellitemap_key :: "string option"
  aviation_edge_key :: "string option"
  cache_duration :: int
  last_update :: "datetime option"
  cached_data :: "snapshot option"
  data_sources :: "string list"

text \<open>
  \<open>__init__\<close>: the two API keys come from the environment; the cache starts empty
  (\<open>last_update = None\<close>, \<open>cached_data = {}\<close>, modelled as \<open>None\<close>), the time to live is
  \<open>timedelta(minutes=5)\<close> in microseconds, and the priority list is fixed.
\<close>

definition init_collector :: "string option \<Rightarrow> string option \<Rightarrow> enhanced_collector" where
  "init_collector smkey aekey =
     \<lparr> satellitemap_key = smkey, aviation_edge_key = aekey,
       cache_duration = 5 * 60 * 1000000,
       last_update = None, cached_data = None,
       data_sources = [''satellitemap_enhanced'', ''aviation_edge'', ''space_track'',
                       ''celestrak_fallback''] \<rparr>"

text \<open>
  \<open>_is_cache_valid\<close>: both \<open>last_update\<close> and \<open>cached_data\<close> must be set (an empty
  dictionary is falsy), and the reading of the clock must be less than the time to live
  after the last update.
\<close>

definition is_cache_valid :: "enhanced_collector \<Rightarrow> datetime \<Rightarrow> bool" where
  "is_cache_valid c now =
     (case last_update c of
        None \<Rightarrow> False
      | Some lu \<Rightarrow>
          (case cached_data c of
             None \<Rightarrow> False
           | Some _ \<Rightarrow> now - lu < cache_duration c))"

definition cache_data :: "enhanced_collector \<Rightarrow> snapshot \<Rightarrow> datetime \<Rightarrow> enhanced_collector" where
  "cache_data c d now = c\<lparr> cached_data := Some d, last_update := Some now \<rparr>"

text \<open>
  \<open>_get_fallback_data\<close>: twelve synthetic satellites built by a comprehension over
  \<open>range(12)\<close>.
\<close>

definition fallback_position :: "nat \<Rightarrow> pydict" where
  "fallback_position i =
     [ (''norad_id'', PInt (44700 + int i)),
       (''name'', PStr (''STARLINK-'' @ str_of_nat (1000 + i))),
       (''lat'', PFloat (45.0 + real ((i * 15) mod 90) - 45)),
       (''lng'', PFloat (- 120.0 + real ((i * 30) mod 360))),
       (''alt'', PFloat (550.0 + real (i mod 3) * 10)),
       (''velocity'', PFloat 7.66),
       (''visibility'', PStr (if i mod 2 = 0 then ''daylight'' else ''eclipse'')),
       (''status'', PStr ''active''),
       (''hardware_version'', PStr (if i > 6 then ''v1.5'' else ''v1.0'')) ]"

definition get_fallback_data :: "datetime \<Rightarrow> snapshot" where
  "get_fallback_data utcnow =
     \<lparr> timestamp = utcnow,
       satellite_count = 12,
       positions_calculated = 12,
       positions = map fallback_position [0..<12],
       data_source = ''enhanced_fallback'',
       tle_age_hours = 0,
       note_field = Some ''Enhanced fallback data - multiple sources unavailable'',
       coverage = Some [(''global_coverage'', PInt 85), (''active_satellites'', PInt 12)] \<rparr>"

text \<open>
  What one call of a provider method does: it raises, or it returns \<open>None\<close> or a
  snapshot. The four provider methods of one resolver call are gathered in a record;
  section "Providers" below derives them from the replies of the network.
\<close>

datatype provider_outcome = Raises | Returns "snapshot option"

record providers =
  get_satellitemap_data :: provider_outcome
  get_aviation_edge_data :: provider_outcome
  get_spacetrack_data :: provider_outcome
  get_celestrak_data :: provider_outcome

definition call_provider :: "providers \<Rightarrow> string \<Rightarrow> provider_outcome" where
  "call_provider env source =
     (if source = ''satellitemap_enhanced'' then get_satellitemap_data env
      else if source = ''aviation_edge'' then get_aviation_edge_data env
      else if source = ''space_track'' then get_spacetrack_data env
      else get_celestrak_data env)"

text \<open>
  The test \<open>data and data.get('positions')\<close> of the loop body: the provider returned a
  dictionary whose list of positions is not empty.
\<close>

definition usable :: "provider_outcome \<Rightarrow> snapshot option" where
  "usable r =
     (case r of
        Raises \<Rightarrow> None
      | Returns None \<Rightarrow> None
      | Returns (Some d) \<Rightarrow> (if positions d \<noteq> [] then Some d else None))"

text \<open>
  The \<open>for source in self.data_sources\<close> loop. It yields the first usable snapshot, if
  any, together with the sources whose provider it invoked, in order of invocation.
\<close>

fun try_sources :: "providers \<Rightarrow> string list \<Rightarrow> snapshot option \<times> string list" where
  "try_sources env [] = (None, [])"
| "try_sources env (source # rest) =
     (case usable (call_provider env source) of
        Some d \<Rightarrow> (Some d, [source])
      | None \<Rightarrow> (case try_sources env rest of (r, invoked) \<Rightarrow> (r, source # invoked)))"

text \<open>
  The clock is read at most twice in one call: by \<open>_is_cache_valid\<close> on entry, and then
  either by \<open>_cache_data\<close> after a provider succeeded or by \<open>_get_fallback_data\<close>.
\<close>

record clock_readings =
  at_check :: datetime
  at_end :: datetime

text \<open>
  \<open>get_starlink_constellation\<close> returns the snapshot, the collector after the call and
  the sources invoked.
\<close>

definition get_starlink_constellation ::
  "enhanced_collector \<Rightarrow> providers \<Rightarrow> clock_readings
     \<Rightarrow> snapshot \<times> enhanced_collector \<times> string list" where
  "get_starlink_constellation c env clk =
     (case (if is_cache_valid c (at_check clk) then cached_data c else None) of
        Some d \<Rightarrow> (d, c, [])
      | None \<Rightarrow>
          (case try_sources env (data_sources c) of
             (Some d, invoked) \<Rightarrow> (d, cache_data c d (at_end clk), invoked)
           | (None, invoked) \<Rightarrow> (get_fallback_data (at_end clk), c, invoked)))"

section \<open>Exceptions and checked arithmetic\<close>

datatype exn = ValueError | ZeroDivisionError | OverflowError | TypeError | KeyError

text \<open>
  A computation that may raise returns \<open>Inl\<close> of the exception. \<open>then_r\<close> sequences two
  of them; \<open>try_except\<close> is a \<open>try\<close> block with one \<open>except Exception\<close> handler.
\<close>

definition then_r :: "exn + 'a \<Rightarrow> ('a \<Rightarrow> exn + 'b) \<Rightarrow> exn + 'b" where
  "then_r m f = (case m of Inl e \<Rightarrow> Inl e | Inr v \<Rightarrow> f v)"

definition try_except :: "exn + 'a \<Rightarrow> (exn \<Rightarrow> exn + 'a) \<Rightarrow> exn + 'a" where
  "try_except body handler = (case body of Inl e \<Rightarrow> handler e | Inr v \<Rightarrow> Inr v)"

definition py_div :: "real \<Rightarrow> real \<Rightarrow> exn + real" where
  "py_div x y = (if y = 0 then Inl ZeroDivisionError else Inr (x / y))"

definition py_sqrt :: "real \<Rightarrow> exn + real" where
  "py_sqrt x = (if x < 0 then Inl ValueError else Inr (sqrt x))"

definition py_asin :: "real \<Rightarrow> exn + real" where
  "py_asin x = (if x < - 1 \<or> 1 < x then Inl ValueError else Inr (arcsin x))"

definition py_atan2 :: "real \<Rightarrow> real \<Rightarrow> real" where
  "py_atan2 y x =
     (if 0 < x then arctan (y / x)
      else if x < 0 then (if 0 \<le> y then arctan (y / x) + pi else arctan (y / x) - pi)
      else if 0 < y then pi / 2
      else if y < 0 then - (pi / 2)
      else 0)"

definition radians :: "real \<Rightarrow> real" where
  "radians x = x * (pi / 180)"

definition degrees :: "real \<Rightarrow> real" where
  "degrees x = x * (180 / pi)"

text \<open>Python's \<open>x % m\<close> on floats, for a positive modulus: the result is in \<open>[0, m)\<close>.\<close>

definition py_fmod :: "real \<Rightarrow> real \<Rightarrow> real" where
  "py_fmod x m = x - m * of_int \<lfloor>x / m\<rfloor>"

section \<open>Strings: \<open>strip\<close>, \<open>split\<close>, \<open>int\<close> and \<open>float\<close>\<close>

text \<open>
  A character is a code point below 256. The white space of \<open>str.strip\<close>, \<open>int\<close> and
  \<open>float\<close> among these code points is 9 to 13, 28 to 32, 133 and 160.
\<close>

definition py_isspace :: "char \<Rightarrow> bool" where
  "py_isspace c =
     (let n = (of_char c :: nat)
      in (9 \<le> n \<and> n \<le> 13) \<or> (28 \<le> n \<and> n \<le> 32) \<or> n = 133 \<or> n = 160)"

definition py_strip :: "string \<Rightarrow> string" where
  "py_strip s = rev (dropWhile py_isspace (rev (dropWhile py_isspace s)))"

text \<open>\<open>s.split(c)\<close> for a one-character separator: the empty string gives one empty piece.\<close>

fun py_split :: "char \<Rightarrow> string \<Rightarrow> string list" where
  "py_split c [] = [[]]"
| "py_split c (x # xs) =
     (if x = c then [] # py_split c xs
      else (case py_split c xs of [] \<Rightarrow> [[x]] | piece # pieces \<Rightarrow> (x # piece) # pieces))"

text \<open>The slice \<open>s[a:b]\<close> for \<open>0 \<le> a \<le> b\<close>; it never raises, it only comes out shorter.\<close>

definition py_slice :: "string \<Rightarrow> nat \<Rightarrow> nat \<Rightarrow> string" where
  "py_slice s a b = take (b - a) (drop a s)"

definition is_digit :: "char \<Rightarrow> bool" where
  "is_digit c = (48 \<le> (of_char c :: nat) \<and> (of_char c :: nat) \<le> 57)"

definition digit_val :: "char \<Rightarrow> nat" where
  "digit_val c = of_char c - 48"

text \<open>
  \<open>digitpart acc k s\<close> reads the longest prefix of \<open>s\<close> of the form
  \<open>digit (["_"] digit)*\<close> (or nothing) and returns the number read into \<open>acc\<close>, the count
  of digits added to \<open>k\<close>, and the rest. An underscore that no digit follows is not
  consumed.
\<close>

fun digitpart :: "nat \<Rightarrow> nat \<Rightarrow> string \<Rightarrow> nat \<times> nat \<times> string" where
  "digitpart acc k [] = (acc, k, [])"
| "digitpart acc k [c] =
     (if is_digit c then (10 * acc + digit_val c, Suc k, []) else (acc, k, [c]))"
| "digitpart acc k (c # c' # cs) =
     (if is_digit c then digitpart (10 * acc + digit_val c) (Suc k) (c' # cs)
      else if c = CHR ''_'' \<and> is_digit c' \<and> 0 < k
        then digitpart (10 * acc + digit_val c') (Suc k) cs
      else (acc, k, c # c' # cs))"

text \<open>An optional sign and then a digit part that takes all of the text.\<close>

definition signed_digits :: "string \<Rightarrow> int option" where
  "signed_digits t =
     (let neg = (case t of [] \<Rightarrow> False | c # _ \<Rightarrow> c = CHR ''-'');
          body = (case t of [] \<Rightarrow> []
                  | c # r \<Rightarrow> if c = CHR ''+'' \<or> c = CHR ''-'' then r else t)
      in case digitpart 0 0 body of
           (v, k, rest) \<Rightarrow>
             if k = 0 \<or> rest \<noteq> [] then None
             else Some (if neg then - int v else int v))"

text \<open>\<open>int(s)\<close> in base ten; \<open>None\<close> is the \<open>ValueError\<close>.\<close>

definition py_int :: "string \<Rightarrow> int option" where
  "py_int s = signed_digits (py_strip s)"

text \<open>
  The mantissa \<open>digitpart ["." [digitpart]] | "." digitpart\<close> of a float literal and the
  text after it.
\<close>

definition mantissa :: "string \<Rightarrow> (real \<times> string) option" where
  "mantissa s =
     (case digitpart 0 0 s of
        (ip, k, r1) \<Rightarrow>
          (case r1 of
             [] \<Rightarrow> (if k = 0 then None else Some (real ip, []))
           | d # r2 \<Rightarrow>
               if d = CHR ''.'' then
                 (case digitpart 0 0 r2 of
                    (fp, j, r3) \<Rightarrow>
                      if k = 0 \<and> j = 0 then None
                      else Some (real ip + real fp / 10 ^ j, r3))
               else if k = 0 then None
               else Some (real ip, r1)))"

definition exponent :: "string \<Rightarrow> int option" where
  "exponent r =
     (case r of
        [] \<Rightarrow> Some 0
      | c # r1 \<Rightarrow> if c = CHR ''e'' \<or> c = CHR ''E'' then signed_digits r1 else None)"

definition scale10 :: "real \<Rightarrow> int \<Rightarrow> real" where
  "scale10 m e = (if 0 \<le> e then m * 10 ^ nat e else m / 10 ^ nat (- e))"

text \<open>
  \<open>float(s)\<close> on a finite decimal literal, with the exact decimal value; \<open>None\<close> is the
  \<open>ValueError\<close>. The spellings \<open>inf\<close>, \<open>infinity\<close> and \<open>nan\<close>, which Python reads as
  special values, are outside the model and are not read here.
\<close>

definition py_float :: "string \<Rightarrow> real option" where
  "py_float s =
     (let t = py_strip s;
          neg = (case t of [] \<Rightarrow> False | c # _ \<Rightarrow> c = CHR ''-'');
          body = (case t of [] \<Rightarrow> []
                  | c # r \<Rightarrow> if c = CHR ''+'' \<or> c = CHR ''-'' then r else t)
      in case mantissa body of
           None \<Rightarrow> None
         | Some (m, r) \<Rightarrow>
             (case exponent r of
                None \<Rightarrow> None
              | Some e \<Rightarrow> Some (if neg then - scale10 m e else scale10 m e)))"

section \<open>Dates\<close>

definition days_before_year :: "int \<Rightarrow> int" where
  "days_before_year y = (y - 1) * 365 + (y - 1) div 4 - (y - 1) div 100 + (y - 1) div 400"

definition us_per_day :: int where
  "us_per_day = 86400000000"

text \<open>\<open>datetime(year, 1, 1, tzinfo=timezone.utc)\<close>.\<close>

definition new_year :: "int \<Rightarrow> exn + datetime" where
  "new_year y = (if y < 1 \<or> 9999 < y then Inl ValueError else Inr (days_before_year y * us_per_day))"

definition round_half_even :: "real \<Rightarrow> int" where
  "round_half_even x =
     (let f = \<lfloor>x\<rfloor>; r = x - of_int f
      in if r < 1 / 2 then f else if 1 / 2 < r then f + 1 else if even f then f else f + 1)"

text \<open>\<open>timedelta(days=x)\<close>, in microseconds: at most 999999999 days either way.\<close>

definition timedelta_days :: "real \<Rightarrow> exn + int" where
  "timedelta_days x =
     (let us = round_half_even (x * real_of_int us_per_day)
      in if us div us_per_day < - 999999999 \<or> 999999999 < us div us_per_day
         then Inl OverflowError else Inr us)"

definition datetime_add :: "datetime \<Rightarrow> int \<Rightarrow> exn + datetime" where
  "datetime_add d td =
     (if d + td < 0 \<or> days_before_year 10000 * us_per_day \<le> d + td
      then Inl OverflowError else Inr (d + td))"

section \<open>The element store (satellites.py)\<close>

record tle_entry =
  name :: string
  line1 :: string
  line2 :: string
  norad_id :: int
  epoch :: datetime

record satellite_collector =
  starlink_satellites :: "tle_entry list"
  last_tle_fetch :: "real option"
  tle_cache_duration :: real

definition init_satellite_collector :: satellite_collector where
  "init_satellite_collector =
     \<lparr> starlink_satellites = [], last_tle_fetch = None, tle_cache_duration = 3600 \<rparr>"

text \<open>
  \<open>_parse_tle_epoch\<close>: the body of its \<open>try\<close> block, then the method with its handler,
  which returns the reading \<open>utcnow\<close> of \<open>datetime.now(timezone.utc)\<close>.
\<close>

definition parse_tle_epoch_body :: "string \<Rightarrow> exn + datetime" where
  "parse_tle_epoch_body epoch_str =
     (case py_int (py_slice epoch_str 0 2) of
        None \<Rightarrow> Inl ValueError
      | Some y \<Rightarrow>
          (let year = (if y < 57 then y + 2000 else y + 1900)
           in case py_float (drop 2 epoch_str) of
                None \<Rightarrow> Inl ValueError
              | Some day_of_year \<Rightarrow>
                  then_r (new_year year) (\<lambda>base_date.
                  then_r (timedelta_days (day_of_year - 1)) (\<lambda>td.
                  datetime_add base_date td))))"

definition parse_tle_epoch :: "datetime \<Rightarrow> string \<Rightarrow> exn + datetime" where
  "parse_tle_epoch utcnow epoch_str =
     try_except (parse_tle_epoch_body epoch_str) (\<lambda>e. Inr utcnow)"

text \<open>
  The basic validation of \<open>_fetch_starlink_tle_data\<close> and the construction of one
  entry: \<open>None\<close> when the triplet is skipped. \<open>utcnow\<close> is the reading of the clock that
  \<open>_parse_tle_epoch\<close> would take for this triplet.
\<close>

definition basic_validation :: "string \<Rightarrow> string \<Rightarrow> bool" where
  "basic_validation l1 l2 =
     (length l1 = 69 \<and> length l2 = 69 \<and> l1 ! 0 = CHR ''1'' \<and> l2 ! 0 = CHR ''2'')"

definition parse_triplet :: "datetime \<Rightarrow> string \<Rightarrow> string \<Rightarrow> string \<Rightarrow> tle_entry option" where
  "parse_triplet utcnow raw0 raw1 raw2 =
     (let nm = py_strip raw0; l1 = py_strip raw1; l2 = py_strip raw2
      in if basic_validation l1 l2 then
           (case py_int (py_slice l1 2 7) of
              None \<Rightarrow> None
            | Some n \<Rightarrow>
                (case parse_tle_epoch utcnow (py_slice l1 18 32) of
                   Inl e \<Rightarrow> None
                 | Inr ep \<Rightarrow>
                     Some \<lparr> name = nm, line1 = l1, line2 = l2, norad_id = n, epoch = ep \<rparr>))
         else None)"

text \<open>
  The loop \<open>for i in range(0, len(lines), 3)\<close> with its guard \<open>i + 2 < len(lines)\<close>: the
  lines are taken three at a time and a rest of fewer than three lines is ignored.
  \<open>clock i\<close> is the reading of the clock while the triplet at line \<open>i\<close> is parsed.
\<close>

fun parse_triplets :: "(nat \<Rightarrow> datetime) \<Rightarrow> nat \<Rightarrow> string list \<Rightarrow> tle_entry list" where
  "parse_triplets clock i (raw0 # raw1 # raw2 # rest) =
     (case parse_triplet (clock i) raw0 raw1 raw2 of
        None \<Rightarrow> parse_triplets clock (i + 3) rest
      | Some sat \<Rightarrow> sat # parse_triplets clock (i + 3) rest)"
| "parse_triplets clock i rest = []"

text \<open>
  The reply of the network to one request: the request raised, or it gave a status code
  and a body.
\<close>

datatype 'a reply = Raised | Reply int 'a

text \<open>
  The loop over \<open>response.iter_content\<close>: \<open>None\<close> when the size passes 50 MB.
\<close>

fun read_chunks :: "string list \<Rightarrow> string \<Rightarrow> nat \<Rightarrow> string option" where
  "read_chunks [] content sz = Some content"
| "read_chunks (chunk # chunks) content sz =
     (if chunk \<noteq> [] then
        (if 50000000 < sz + length chunk then None
         else read_chunks chunks (content @ chunk) (sz + length chunk))
      else read_chunks chunks content sz)"

text \<open>
  What one call of the CelesTrak collector reads from outside: the reply to the
  request for the element file (the body in chunks), the readings of \<open>time.time()\<close> in
  \<open>_should_update_tle\<close>, after the fetch and in \<open>_get_tle_age_hours\<close>, the reading of
  \<open>datetime.now(timezone.utc)\<close> for the snapshot, and the readings while the epochs are
  parsed.
\<close>

record tle_world =
  tle_reply :: "string list reply"
  time_should :: real
  time_fetched :: real
  time_age :: real
  utc_now :: datetime
  epoch_clock :: "nat \<Rightarrow> datetime"

definition ingest :: "(nat \<Rightarrow> datetime) \<Rightarrow> string \<Rightarrow> tle_entry list" where
  "ingest clock content = parse_triplets clock 0 (py_split (CHR 0x0A) (py_strip content))"

definition fetch_starlink_tle_data ::
  "satellite_collector \<Rightarrow> tle_world \<Rightarrow> bool \<times> satellite_collector" where
  "fetch_starlink_tle_data c w =
     (case tle_reply w of
        Raised \<Rightarrow> (False, c)
      | Reply status chunks \<Rightarrow>
          if status \<noteq> 200 then (False, c)
          else
            (case read_chunks chunks [] 0 of
               None \<Rightarrow> (False, c)
             | Some content \<Rightarrow>
                 (let satellites = ingest (epoch_clock w) content
                  in if length satellites = 0 then (False, c)
                     else (True, c\<lparr> starlink_satellites := satellites,
                                     last_tle_fetch := Some (time_fetched w) \<rparr>))))"

definition should_update_tle :: "satellite_collector \<Rightarrow> real \<Rightarrow> bool" where
  "should_update_tle c now =
     (case last_tle_fetch c of
        None \<Rightarrow> True
      | Some t \<Rightarrow> if t = 0 then True else tle_cache_duration c < now - t)"

definition get_tle_age_hours :: "satellite_collector \<Rightarrow> real \<Rightarrow> real" where
  "get_tle_age_hours c now =
     (case last_tle_fetch c of
        None \<Rightarrow> 0
      | Some t \<Rightarrow> if t = 0 then 0 else (now - t) / 3600)"

section \<open>Approximate propagation (satellites.py)\<close>

record satellite_position =
  sp_name :: string
  sp_norad_id :: int
  latitude :: real
  longitude :: real
  altitude_km :: real
  velocity_kmh :: real
  sp_timestamp :: datetime

record elements =
  inclination :: real
  raan :: real
  eccentricity :: real
  arg_perigee :: real
  mean_anomaly :: real
  mean_motion :: real

text \<open>The six \<open>float(line2[a:b])\<close> conversions; \<open>None\<close> when one of them raises.\<close>

definition parse_elements :: "string \<Rightarrow> elements option" where
  "parse_elements l2 =
     Option.bind (py_float (py_slice l2 8 16)) (\<lambda>i.
     Option.bind (py_float (py_slice l2 17 25)) (\<lambda>ra.
     Option.bind (py_float (''0.'' @ py_slice l2 26 33)) (\<lambda>ec.
     Option.bind (py_float (py_slice l2 34 42)) (\<lambda>ap.
     Option.bind (py_float (py_slice l2 43 51)) (\<lambda>ma.
     Option.bind (py_float (py_slice l2 52 63)) (\<lambda>mm.
       Some \<lparr> inclination = i, raan = ra, eccentricity = ec, arg_perigee = ap,
              mean_anomaly = ma, mean_motion = mm \<rparr>))))))"

definition mu :: real where
  "mu = 398600.4418"

text \<open>\<open>(timestamp - epoch).total_seconds() / 86400.0\<close>.\<close>

definition elapsed_days :: "datetime \<Rightarrow> datetime \<Rightarrow> real" where
  "elapsed_days ts ep = real_of_int (ts - ep) / 1000000 / 86400"

definition current_mean_anomaly :: "elements \<Rightarrow> real \<Rightarrow> real" where
  "current_mean_anomaly el time_diff =
     py_fmod (mean_anomaly el + mean_motion el * 360 * time_diff) 360"

definition mean_motion_rad :: "elements \<Rightarrow> real" where
  "mean_motion_rad el = mean_motion el * 2 * pi / 86400"

definition semi_major_axis :: "elements \<Rightarrow> exn + real" where
  "semi_major_axis el =
     then_r (py_div mu ((mean_motion_rad el)\<^sup>2)) (\<lambda>q. Inr (q powr (1 / 3)))"

definition eccentric_anomaly :: "elements \<Rightarrow> real \<Rightarrow> real" where
  "eccentric_anomaly el M = M + eccentricity el * sin M"

text \<open>The two \<open>while\<close> loops that normalize the longitude.\<close>

function lon_while_gt :: "real \<Rightarrow> real" where
  "lon_while_gt lon = (if 180 < lon then lon_while_gt (lon - 360) else lon)"
  by pat_completeness auto
termination
proof (relation "measure (\<lambda>lon. nat \<lceil>lon\<rceil>)")
  show "wf (measure (\<lambda>lon::real. nat \<lceil>lon\<rceil>))" by simp
next
  fix lon :: real
  assume "180 < lon"
  then have "180 < \<lceil>lon\<rceil>" by linarith
  then show "(lon - 360, lon) \<in> measure (\<lambda>lon. nat \<lceil>lon\<rceil>)" by simp
qed

function lon_while_lt :: "real \<Rightarrow> real" where
  "lon_while_lt lon = (if lon < - 180 then lon_while_lt (lon + 360) else lon)"
  by pat_completeness auto
termination
proof (relation "measure (\<lambda>lon. nat \<lceil>- lon\<rceil>)")
  show "wf (measure (\<lambda>lon::real. nat \<lceil>- lon\<rceil>))" by simp
next
  fix lon :: real
  assume "lon < - 180"
  then have "180 < \<lceil>- lon\<rceil>" by linarith
  moreover have "\<lceil>- (lon + 360)\<rceil> = \<lceil>- lon\<rceil> - 360"
    by (simp add: algebra_simps)
  ultimately show "(lon + 360, lon) \<in> measure (\<lambda>lon. nat \<lceil>- lon\<rceil>)" by simp
qed

declare lon_while_gt.simps [simp del] lon_while_lt.simps [simp del]

definition normalize_longitude :: "real \<Rightarrow> real" where
  "normalize_longitude lon = lon_while_lt (lon_while_gt lon)"

text \<open>
  \<open>_calculate_satellite_position\<close>: the body of its \<open>try\<close> block, and the method, which
  returns \<open>None\<close> when the body raises.
\<close>

definition position_body :: "tle_entry \<Rightarrow> datetime \<Rightarrow> exn + satellite_position" where
  "position_body sat ts =
     (case parse_elements (line2 sat) of
        None \<Rightarrow> Inl ValueError
      | Some el \<Rightarrow>
          (let time_diff = elapsed_days ts (epoch sat);
               M = radians (current_mean_anomaly el time_diff);
               E = eccentric_anomaly el M
           in then_r (semi_major_axis el) (\<lambda>a.
              then_r (py_sqrt (1 + eccentricity el)) (\<lambda>s1.
              then_r (py_sqrt (1 - eccentricity el)) (\<lambda>s2.
              (let nu = 2 * py_atan2 (s1 * sin (E / 2)) (s2 * cos (E / 2));
                   r = a * (1 - eccentricity el * cos E);
                   x_orbit = r * cos nu;
                   y_orbit = r * sin nu
               in then_r (py_asin (sin (radians (inclination el)) * sin nu)) (\<lambda>asn.
                  (let lat = degrees asn;
                       lon = degrees (py_atan2 y_orbit x_orbit + radians (raan el))
                   in then_r (py_div mu r) (\<lambda>q.
                      then_r (py_sqrt q) (\<lambda>v.
                        Inr \<lparr> sp_name = name sat, sp_norad_id = norad_id sat,
                              latitude = max (- 90) (min 90 lat),
                              longitude = normalize_longitude lon,
                              altitude_km = r - 6371,
                              velocity_kmh = v * 3.6,
                              sp_timestamp = ts \<rparr>))))))))))"

definition calculate_satellite_position :: "tle_entry \<Rightarrow> datetime \<Rightarrow> satellite_position option" where
  "calculate_satellite_position sat ts =
     (case position_body sat ts of Inl e \<Rightarrow> None | Inr p \<Rightarrow> Some p)"

section \<open>Elevation, azimuth and range (satellites.py)\<close>

definition earth_radius :: real where
  "earth_radius = 6371.0"

definition elevation_body ::
  "real \<Rightarrow> real \<Rightarrow> real \<Rightarrow> real \<Rightarrow> real \<Rightarrow> real \<Rightarrow> exn + real" where
  "elevation_body obs_lat obs_lon obs_alt sat_lat sat_lon sat_alt =
     (let obs_lat_rad = radians obs_lat; obs_lon_rad = radians obs_lon;
          sat_lat_rad = radians sat_lat; sat_lon_rad = radians sat_lon;
          R = earth_radius;
          obs_x = (R + obs_alt) * cos obs_lat_rad * cos obs_lon_rad;
          obs_y = (R + obs_alt) * cos obs_lat_rad * sin obs_lon_rad;
          obs_z = (R + obs_alt) * sin obs_lat_rad;
          sat_x = (R + sat_alt) * cos sat_lat_rad * cos sat_lon_rad;
          sat_y = (R + sat_alt) * cos sat_lat_rad * sin sat_lon_rad;
          sat_z = (R + sat_alt) * sin sat_lat_rad;
          dx = sat_x - obs_x; dy = sat_y - obs_y; dz = sat_z - obs_z
      in then_r (py_sqrt (dx * dx + dy * dy + dz * dz)) (\<lambda>distance.
         then_r (py_div obs_x (R + obs_alt)) (\<lambda>up_x.
         then_r (py_div obs_y (R + obs_alt)) (\<lambda>up_y.
         then_r (py_div obs_z (R + obs_alt)) (\<lambda>up_z.
         then_r (py_div (dx * up_x + dy * up_y + dz * up_z) distance) (\<lambda>dot_product.
         then_r (py_asin (max (- 1) (min 1 dot_product))) (\<lambda>asn.
           Inr (degrees asn))))))))"

definition calculate_elevation_angle ::
  "real \<Rightarrow> real \<Rightarrow> real \<Rightarrow> real \<Rightarrow> real \<Rightarrow> real \<Rightarrow> exn + real" where
  "calculate_elevation_angle obs_lat obs_lon obs_alt sat_lat sat_lon sat_alt =
     try_except (elevation_body obs_lat obs_lon obs_alt sat_lat sat_lon sat_alt)
       (\<lambda>e. Inr 0.0)"

definition azimuth_body :: "real \<Rightarrow> real \<Rightarrow> real \<Rightarrow> real \<Rightarrow> exn + real" where
  "azimuth_body obs_lat obs_lon sat_lat sat_lon =
     (let obs_lat_rad = radians obs_lat; obs_lon_rad = radians obs_lon;
          sat_lat_rad = radians sat_lat; sat_lon_rad = radians sat_lon;
          dlon = sat_lon_rad - obs_lon_rad;
          y = sin dlon * cos sat_lat_rad;
          x = cos obs_lat_rad * sin sat_lat_rad
              - sin obs_lat_rad * cos sat_lat_rad * cos dlon;
          azimuth = degrees (py_atan2 y x)
      in Inr (py_fmod (azimuth + 360) 360))"

definition calculate_azimuth :: "real \<Rightarrow> real \<Rightarrow> real \<Rightarrow> real \<Rightarrow> exn + real" where
  "calculate_azimuth obs_lat obs_lon sat_lat sat_lon =
     try_except (azimuth_body obs_lat obs_lon sat_lat sat_lon) (\<lambda>e. Inr 0.0)"

definition distance_body ::
  "real \<Rightarrow> real \<Rightarrow> real \<Rightarrow> real \<Rightarrow> real \<Rightarrow> real \<Rightarrow> exn + real" where
  "distance_body lat1 lon1 alt1 lat2 lon2 alt2 =
     (let R = earth_radius;
          lat1_rad = radians lat1; lon1_rad = radians lon1;
          lat2_rad = radians lat2; lon2_rad = radians lon2;
          x1 = (R + alt1) * cos lat1_rad * cos lon1_rad;
          y1 = (R + alt1) * cos lat1_rad * sin lon1_rad;
          z1 = (R + alt1) * sin lat1_rad;
          x2 = (R + alt2) * cos lat2_rad * cos lon2_rad;
          y2 = (R + alt2) * cos lat2_rad * sin lon2_rad;
          z2 = (R + alt2) * sin lat2_rad
      in py_sqrt ((x2 - x1)\<^sup>2 + (y2 - y1)\<^sup>2 + (z2 - z1)\<^sup>2))"

definition calculate_distance ::
  "real \<Rightarrow> real \<Rightarrow> real \<Rightarrow> real \<Rightarrow> real \<Rightarrow> real \<Rightarrow> exn + real" where
  "calculate_distance lat1 lon1 alt1 lat2 lon2 alt2 =
     try_except (distance_body lat1 lon1 alt1 lat2 lon2 alt2) (\<lambda>e. Inr 0.0)"

section \<open>Snapshots of the CelesTrak collector (satellites.py)\<close>

definition sample_position :: "datetime \<Rightarrow> nat \<Rightarrow> pydict" where
  "sample_position current_time i =
     [ (''name'', PStr (''STARLINK-'' @ str_of_nat (1000 + i))),
       (''norad_id'', PInt (50000 + int i)),
       (''lat'', PInt (- 60 + int i * 15)),
       (''lng'', PInt (- 180 + int i * 36)),
       (''altitude_km'', PInt 550),
       (''velocity_kmh'', PInt 27000),
       (''timestamp'', PTime current_time) ]"

text \<open>\<open>_get_sample_satellite_data\<close>: its loop appends one position for each \<open>i\<close> of \<open>range(10)\<close>.\<close>

definition get_sample_satellite_data :: "datetime \<Rightarrow> snapshot" where
  "get_sample_satellite_data current_time =
     \<lparr> timestamp = current_time,
       satellite_count = 10,
       positions_calculated = 10,
       positions = map (sample_position current_time) [0..<10],
       data_source = ''sample_data'',
       tle_age_hours = 0,
       note_field = Some ''Sample data - real TLE fetch failed'',
       coverage = None \<rparr>"

definition position_dict :: "satellite_position \<Rightarrow> pydict" where
  "position_dict p =
     [ (''name'', PStr (sp_name p)),
       (''norad_id'', PInt (sp_norad_id p)),
       (''lat'', PFloat (latitude p)),
       (''lng'', PFloat (longitude p)),
       (''altitude_km'', PFloat (altitude_km p)),
       (''velocity_kmh'', PFloat (velocity_kmh p)),
       (''timestamp'', PTime (sp_timestamp p)) ]"

text \<open>
  The loop of \<open>get_starlink_constellation\<close> over the first twenty satellites: a satellite
  whose position is \<open>None\<close> is left out.
\<close>

fun positions_loop :: "datetime \<Rightarrow> tle_entry list \<Rightarrow> pydict list" where
  "positions_loop current_time [] = []"
| "positions_loop current_time (sat # sats) =
     (case calculate_satellite_position sat current_time of
        None \<Rightarrow> positions_loop current_time sats
      | Some p \<Rightarrow> position_dict p # positions_loop current_time sats)"

definition sc_get_starlink_constellation ::
  "satellite_collector \<Rightarrow> tle_world \<Rightarrow> snapshot \<times> satellite_collector" where
  "sc_get_starlink_constellation c w =
     (case (if should_update_tle c (time_should w) then fetch_starlink_tle_data c w
            else (True, c)) of
        (success, c1) \<Rightarrow>
          if \<not> success then (get_sample_satellite_data (utc_now w), c1)
          else if starlink_satellites c1 = [] then (get_sample_satellite_data (utc_now w), c1)
          else
            (let current_time = utc_now w;
                 ps = positions_loop current_time (take 20 (starlink_satellites c1))
             in (\<lparr> timestamp = current_time,
                    satellite_count = int (length (starlink_satellites c1)),
                    positions_calculated = int (length ps),
                    positions = ps,
                    data_source = ''celestrak_tle'',
                    tle_age_hours = get_tle_age_hours c1 (time_age w),
                    note_field = None,
                    coverage = None \<rparr>, c1)))"

section \<open>The visibility query (satellites.py)\<close>

text \<open>
  \<open>list.sort(key=..., reverse=True)\<close> and \<open>sorted(..., reverse=True)\<close>: Python sorts
  stably and, for \<open>reverse=True\<close>, reverses the list before and after an ascending stable
  sort, so that equal keys keep their order.
\<close>

definition py_sort_reverse :: "('a \<Rightarrow> real) \<Rightarrow> 'a list \<Rightarrow> 'a list" where
  "py_sort_reverse key xs = rev (sort_key key (rev xs))"

text \<open>The number under a key of a dictionary, as the sort key reads it.\<close>

definition number_at :: "string \<Rightarrow> pydict \<Rightarrow> real" where
  "number_at k d =
     (case py_get d k (PInt 0) of PFloat x \<Rightarrow> x | PInt n \<Rightarrow> real_of_int n | _ \<Rightarrow> 0)"

text \<open>
  The body of the loop of \<open>get_satellites_over_location\<close> for one satellite: \<open>None\<close> when
  the satellite is skipped.
\<close>

definition visible_entry :: "real \<Rightarrow> real \<Rightarrow> real \<Rightarrow> datetime \<Rightarrow> tle_entry \<Rightarrow> pydict option" where
  "visible_entry lat lon elevation_degrees current_time sat =
     (case calculate_satellite_position sat current_time of
        None \<Rightarrow> None
      | Some p \<Rightarrow>
          (case calculate_elevation_angle lat lon 0 (latitude p) (longitude p) (altitude_km p) of
             Inl e \<Rightarrow> None
           | Inr elevation \<Rightarrow>
               if elevation_degrees \<le> elevation then
                 (case calculate_azimuth lat lon (latitude p) (longitude p) of
                    Inl e \<Rightarrow> None
                  | Inr azimuth \<Rightarrow>
                      (case calculate_distance lat lon 0 (latitude p) (longitude p) (altitude_km p) of
                         Inl e \<Rightarrow> None
                       | Inr range_km \<Rightarrow>
                           Some [ (''name'', PStr (sp_name p)),
                                  (''norad_id'', PInt (sp_norad_id p)),
                                  (''elevation_degrees'', PFloat elevation),
                                  (''azimuth_degrees'', PFloat azimuth),
                                  (''distance_km'', PFloat range_km),
                                  (''lat'', PFloat (latitude p)),
                                  (''lng'', PFloat (longitude p)),
                                  (''altitude_km'', PFloat (altitude_km p)) ]))
               else None))"

fun visible_loop :: "real \<Rightarrow> real \<Rightarrow> real \<Rightarrow> datetime \<Rightarrow> tle_entry list \<Rightarrow> pydict list" where
  "visible_loop lat lon elevation_degrees current_time [] = []"
| "visible_loop lat lon elevation_degrees current_time (sat # sats) =
     (case visible_entry lat lon elevation_degrees current_time sat of
        None \<Rightarrow> visible_loop lat lon elevation_degrees current_time sats
      | Some v \<Rightarrow> v # visible_loop lat lon elevation_degrees current_time sats)"

definition get_satellites_over_location ::
  "satellite_collector \<Rightarrow> datetime \<Rightarrow> real \<Rightarrow> real \<Rightarrow> real \<Rightarrow> pydict list" where
  "get_satellites_over_location c current_time lat lon elevation_degrees =
     py_sort_reverse (number_at ''elevation_degrees'')
       (visible_loop lat lon elevation_degrees current_time (starlink_satellites c))"

section \<open>The Space-Track collector (spacetrack.py)\<close>

definition wgs_a :: real where
  "wgs_a = 6378.137"

definition wgs_e2 :: real where
  "wgs_e2 = 2 * (1.0 / 298.257223563) - (1.0 / 298.257223563) * (1.0 / 298.257223563)"

text \<open>\<open>N = a / math.sqrt(1 - e2 * math.sin(lat)**2)\<close> and \<open>alt = p / math.cos(lat) - N\<close>.\<close>

definition prime_vertical :: "real \<Rightarrow> exn + real" where
  "prime_vertical lat = then_r (py_sqrt (1 - wgs_e2 * (sin lat)\<^sup>2)) (\<lambda>s. py_div wgs_a s)"

definition altitude_at :: "real \<Rightarrow> real \<Rightarrow> real \<Rightarrow> exn + real" where
  "altitude_at p lat N = then_r (py_div p (cos lat)) (\<lambda>q. Inr (q - N))"

definition lat_step :: "real \<Rightarrow> real \<Rightarrow> real \<Rightarrow> exn + real" where
  "lat_step p z lat =
     then_r (prime_vertical lat) (\<lambda>N.
     then_r (altitude_at p lat N) (\<lambda>alt.
     then_r (py_div (wgs_e2 * N) (N + alt)) (\<lambda>q.
       Inr (py_atan2 z (p * (1 - q))))))"

text \<open>The loop \<open>for _ in range(5)\<close>, by the number of rounds left.\<close>

fun lat_iterate :: "nat \<Rightarrow> real \<Rightarrow> real \<Rightarrow> real \<Rightarrow> exn + real" where
  "lat_iterate 0 p z lat = Inr lat"
| "lat_iterate (Suc k) p z lat =
     (case lat_step p z lat of Inl e \<Rightarrow> Inl e | Inr lat' \<Rightarrow> lat_iterate k p z lat')"

text \<open>\<open>_eci_to_geodetic\<close> has no handler of its own: its caller catches what it raises.\<close>

definition eci_to_geodetic :: "real \<times> real \<times> real \<Rightarrow> exn + real \<times> real \<times> real" where
  "eci_to_geodetic r =
     (case r of
        (x, y, z) \<Rightarrow>
          (let lon = py_atan2 y x
           in then_r (py_sqrt (x\<^sup>2 + y\<^sup>2)) (\<lambda>p.
              then_r (lat_iterate 5 p z (py_atan2 z (p * (1 - wgs_e2)))) (\<lambda>lat.
              then_r (prime_vertical lat) (\<lambda>N.
              then_r (altitude_at p lat N) (\<lambda>alt.
                Inr (degrees lat, normalize_longitude (degrees lon), alt)))))))"

text \<open>
  A row of the catalogue's JSON reply: the texts under \<open>OBJECT_NAME\<close>, \<open>TLE_LINE1\<close>,
  \<open>TLE_LINE2\<close> and \<open>NORAD_CAT_ID\<close>, \<open>None\<close> for a key that is missing. The SGP4 library
  is outside the repository: \<open>twoline2rv_ok l1 l2\<close> says whether \<open>Satrec.twoline2rv\<close>
  accepts the two lines, and \<open>sgp4 (l1, l2) t\<close> is the error code, position and velocity
  that the record made of them gives at the instant \<open>t\<close>.
\<close>

type_synonym st_row = "string option \<times> string option \<times> string option \<times> string option"

type_synonym satrec = "string \<times> string"

type_synonym vec3 = "real \<times> real \<times> real"

record st_world =
  st_username :: "string option"
  st_password :: "string option"
  login_reply :: "unit reply"
  query_reply :: "st_row list reply"
  twoline2rv_ok :: "string \<Rightarrow> string \<Rightarrow> bool"
  sgp4 :: "satrec \<Rightarrow> datetime \<Rightarrow> int \<times> vec3 \<times> vec3"
  st_utc_now :: datetime
  st_time_fetched :: real
  st_time_age :: real
  st_epoch_clock :: "nat \<Rightarrow> datetime"

text \<open>
  \<open>authenticate\<close> on a collector that holds no token yet: both credentials must be
  set and not empty, and the login must answer 200.
\<close>

definition authenticate :: "st_world \<Rightarrow> bool" where
  "authenticate w =
     (case st_username w of
        None \<Rightarrow> False
      | Some u \<Rightarrow>
          (case st_password w of
             None \<Rightarrow> False
           | Some pw \<Rightarrow>
               if u = [] \<or> pw = [] then False
               else (case login_reply w of Raised \<Rightarrow> False | Reply status b \<Rightarrow> status = 200)))"

text \<open>
  One round of the loop of \<open>fetch_starlink_tle_data\<close>: \<open>None\<close> when the row is skipped
  (a \<open>KeyError\<close> or a \<open>ValueError\<close>).
\<close>

definition st_row_entry :: "st_world \<Rightarrow> nat \<Rightarrow> st_row \<Rightarrow> tle_entry option" where
  "st_row_entry w i row =
     (case row of
        (Some nm, Some l1, Some l2, Some cat) \<Rightarrow>
          (case py_int cat of
             None \<Rightarrow> None
           | Some n \<Rightarrow>
               if twoline2rv_ok w l1 l2 then
                 (case parse_tle_epoch (st_epoch_clock w i) (py_slice l1 18 32) of
                    Inl e \<Rightarrow> None
                  | Inr ep \<Rightarrow>
                      Some \<lparr> name = nm, line1 = l1, line2 = l2, norad_id = n, epoch = ep \<rparr>)
               else None)
      | _ \<Rightarrow> None)"

text \<open>
  The loop yields the list \<open>satellites\<close> and the dictionary \<open>satellite_records\<close>, keyed
  by catalogue number: a later row with a number already there replaces the record in
  place.
\<close>

fun dict_store :: "('k \<times> 'v) list \<Rightarrow> 'k \<Rightarrow> 'v \<Rightarrow> ('k \<times> 'v) list" where
  "dict_store [] k v = [(k, v)]"
| "dict_store ((k', v') # d) k v =
     (if k' = k then (k, v) # d else (k', v') # dict_store d k v)"

fun st_rows_loop ::
  "st_world \<Rightarrow> nat \<Rightarrow> st_row list \<Rightarrow> tle_entry list \<Rightarrow> (int \<times> satrec) list
     \<Rightarrow> tle_entry list \<times> (int \<times> satrec) list" where
  "st_rows_loop w i [] satellites records = (satellites, records)"
| "st_rows_loop w i (row # rows) satellites records =
     (case st_row_entry w i row of
        None \<Rightarrow> st_rows_loop w (Suc i) rows satellites records
      | Some sat \<Rightarrow>
          st_rows_loop w (Suc i) rows (satellites @ [sat])
            (dict_store records (norad_id sat) (line1 sat, line2 sat)))"

text \<open>
  \<open>fetch_starlink_tle_data\<close>: whether it succeeded, and the satellites and records it
  stored.
\<close>

definition st_fetch :: "st_world \<Rightarrow> (tle_entry list \<times> (int \<times> satrec) list) option" where
  "st_fetch w =
     (if \<not> authenticate w then None
      else
        (case query_reply w of
           Raised \<Rightarrow> None
         | Reply status tle_data \<Rightarrow>
             if status \<noteq> 200 then None
             else if tle_data = [] then None
             else Some (st_rows_loop w 0 tle_data [] [])))"

text \<open>One round of the loop of \<open>calculate_realtime_positions\<close>.\<close>

definition realtime_entry ::
  "st_world \<Rightarrow> tle_entry list \<Rightarrow> datetime \<Rightarrow> int \<times> satrec \<Rightarrow> pydict option" where
  "realtime_entry w satellites ts item =
     (case item of
        (nid, sat_record) \<Rightarrow>
          (case find (\<lambda>s. norad_id s = nid) satellites of
             None \<Rightarrow> None
           | Some sat_info \<Rightarrow>
               (case sgp4 w sat_record ts of
                  (error_code, r, v) \<Rightarrow>
                    if error_code \<noteq> 0 then None
                    else
                      (case eci_to_geodetic r of
                         Inl e \<Rightarrow> None
                       | Inr (lat, lon, alt) \<Rightarrow>
                           (case v of
                              (vx, vy, vz) \<Rightarrow>
                                (case py_sqrt (vx\<^sup>2 + vy\<^sup>2 + vz\<^sup>2) of
                                   Inl e \<Rightarrow> None
                                 | Inr speed \<Rightarrow>
                                     Some [ (''name'', PStr (name sat_info)),
                                            (''norad_id'', PInt nid),
                                            (''lat'', PFloat lat),
                                            (''lng'', PFloat lon),
                                            (''altitude_km'', PFloat alt),
                                            (''velocity_kmh'', PFloat (speed * 3.6)),
                                            (''timestamp'', PTime ts) ]))))))"

fun realtime_loop ::
  "st_world \<Rightarrow> tle_entry list \<Rightarrow> datetime \<Rightarrow> (int \<times> satrec) list \<Rightarrow> pydict list" where
  "realtime_loop w satellites ts [] = []"
| "realtime_loop w satellites ts (item # items) =
     (case realtime_entry w satellites ts item of
        None \<Rightarrow> realtime_loop w satellites ts items
      | Some pos \<Rightarrow> pos # realtime_loop w satellites ts items)"

definition calculate_realtime_positions ::
  "st_world \<Rightarrow> tle_entry list \<Rightarrow> (int \<times> satrec) list \<Rightarrow> datetime \<Rightarrow> pydict list" where
  "calculate_realtime_positions w satellites records ts =
     (if records = [] then [] else realtime_loop w satellites ts records)"

text \<open>
  \<open>SpaceTrackCollector.get_starlink_constellation\<close> on a new collector, whose elements
  are always stale.
\<close>

definition st_get_starlink_constellation :: "st_world \<Rightarrow> snapshot" where
  "st_get_starlink_constellation w =
     (case st_fetch w of
        None \<Rightarrow> get_sample_satellite_data (st_utc_now w)
      | Some (satellites, records) \<Rightarrow>
          (let current_time = st_utc_now w;
               ps = calculate_realtime_positions w satellites records current_time
           in \<lparr> timestamp = current_time,
                satellite_count = int (length satellites),
                positions_calculated = int (length ps),
                positions = ps,
                data_source = ''spacetrack_sgp4'',
                tle_age_hours =
                  (if st_time_fetched w = 0 then 0
                   else (st_time_age w - st_time_fetched w) / 3600),
                note_field = None,
                coverage = None \<rparr>))"

section \<open>Providers of the resolver (enhanced\_satellites.py)\<close>

text \<open>
  \<open>_calculate_approximate_position\<close>: \<open>u1\<close>, \<open>u2\<close> and \<open>u3\<close> are the three values that
  \<open>random.uniform\<close> draws, already in their ranges.
\<close>

definition calculate_approximate_position ::
  "pydict \<Rightarrow> datetime \<Rightarrow> real \<Rightarrow> real \<Rightarrow> real \<Rightarrow> pydict" where
  "calculate_approximate_position sat_info ts u1 u2 u3 =
     (let base_lat = u1; base_lng = u2; altitude = u3;
          orbital_period = 90;
          time_offset = py_fmod (real_of_int ts / 1000000) (orbital_period * 60) / 60;
          lng_offset = (time_offset / orbital_period) * 360
      in [ (''norad_id'', py_get sat_info ''norad_id'' (PInt 0)),
           (''name'', py_get sat_info ''name'' (PStr ''STARLINK-UNKNOWN'')),
           (''lat'', PFloat base_lat),
           (''lng'', PFloat (py_fmod (base_lng + lng_offset) 360 - 180)),
           (''alt'', PFloat altitude),
           (''velocity'', PFloat 7.66),
           (''visibility'', PStr (if \<bar>base_lat\<bar> < 45 then ''daylight'' else ''eclipse'')),
           (''hardware_version'', py_get sat_info ''hardware_version'' (PStr ''v1.5'')),
           (''status'', py_get sat_info ''status'' (PStr ''active'')) ])"

text \<open>\<open>_calculate_coverage_stats\<close>.\<close>

definition calculate_coverage_stats :: "pydict list \<Rightarrow> pydict" where
  "calculate_coverage_stats ps =
     (if ps = [] then [(''global_coverage'', PInt 0), (''active_satellites'', PInt 0)]
      else
        (let active_sats = length (filter (\<lambda>p. py_get p ''status'' PNone = PStr ''active'') ps);
             estimate = (real active_sats / 10) * 100
         in [ (''global_coverage'', if estimate < 100 then PFloat estimate else PInt 100),
              (''active_satellites'', PInt (int active_sats)),
              (''total_tracked'', PInt (int (length ps))) ]))"

text \<open>
  What one call of the resolver reads from outside: the replies of the two web
  services (a list of JSON objects each), the random draws for the satellite with a
  given index, the reading of \<open>datetime.utcnow()\<close>, and what the Space-Track and
  CelesTrak collectors read.
\<close>

record network =
  satellitemap_reply :: "pydict list reply"
  draws :: "nat \<Rightarrow> real \<times> real \<times> real"
  aviation_reply :: "pydict list reply"
  utcnow :: datetime
  spacetrack :: st_world
  celestrak :: tle_world

text \<open>The loop of \<open>_get_satellitemap_data\<close> over \<open>satellites_info[:50]\<close>.\<close>

fun satellitemap_loop ::
  "(nat \<Rightarrow> real \<times> real \<times> real) \<Rightarrow> datetime \<Rightarrow> nat \<Rightarrow> pydict list \<Rightarrow> pydict list" where
  "satellitemap_loop rnd ts i [] = []"
| "satellitemap_loop rnd ts i (sat_info # rest) =
     (case rnd i of
        (u1, u2, u3) \<Rightarrow>
          (let position = calculate_approximate_position sat_info ts u1 u2 u3
           in if position \<noteq> [] then position # satellitemap_loop rnd ts (Suc i) rest
              else satellitemap_loop rnd ts (Suc i) rest))"

definition satellitemap_data :: "enhanced_collector \<Rightarrow> network \<Rightarrow> snapshot option" where
  "satellitemap_data c net =
     (case satellitemap_key c of
        None \<Rightarrow> None
      | Some key \<Rightarrow>
          if key = [] then None
          else
            (case satellitemap_reply net of
               Raised \<Rightarrow> None
             | Reply status satellites_info \<Rightarrow>
                 if status \<noteq> 200 then None
                 else if satellites_info = [] then None
                 else
                   (let current_time = utcnow net;
                        ps = satellitemap_loop (draws net) current_time 0 (take 50 satellites_info)
                    in Some \<lparr> timestamp = current_time,
                              satellite_count = int (length ps),
                              positions_calculated = int (length ps),
                              positions = ps,
                              data_source = ''satellitemap_enhanced'',
                              tle_age_hours = 0,
                              note_field = None,
                              coverage = Some (calculate_coverage_stats ps) \<rparr>)))"

text \<open>
  \<open>str.lower\<close> on code points below 256, and the test \<open>p in s\<close> on strings.
\<close>

definition py_lower_char :: "char \<Rightarrow> char" where
  "py_lower_char c =
     (let n = (of_char c :: nat)
      in if (65 \<le> n \<and> n \<le> 90) \<or> (192 \<le> n \<and> n \<le> 222 \<and> n \<noteq> 215) then char_of (n + 32)
         else c)"

definition py_lower :: "string \<Rightarrow> string" where
  "py_lower s = map py_lower_char s"

fun starts_with :: "string \<Rightarrow> string \<Rightarrow> bool" where
  "starts_with [] s = True"
| "starts_with (p # ps) [] = False"
| "starts_with (p # ps) (c # cs) = (p = c \<and> starts_with ps cs)"

fun py_in :: "string \<Rightarrow> string \<Rightarrow> bool" where
  "py_in p [] = (p = [])"
| "py_in p (c # cs) = (starts_with p (c # cs) \<or> py_in p cs)"

text \<open>
  The loop of \<open>_process_aviation_edge_data\<close>. A name that is not a string makes
  \<open>.lower()\<close> raise, which ends the whole method: \<open>None\<close>.
\<close>

fun aviation_loop :: "pydict list \<Rightarrow> pydict list option" where
  "aviation_loop [] = Some []"
| "aviation_loop (sat # rest) =
     (case py_get sat ''satelliteName'' (PStr []) of
        PStr nm \<Rightarrow>
          (case aviation_loop rest of
             None \<Rightarrow> None
           | Some ps \<Rightarrow>
               if py_in ''starlink'' (py_lower nm) then
                 Some ([ (''norad_id'', py_get sat ''noradID'' (PInt 0)),
                         (''name'', py_get sat ''satelliteName'' (PStr ''UNKNOWN'')),
                         (''lat'', py_get sat ''lat'' (PInt 0)),
                         (''lng'', py_get sat ''lng'' (PInt 0)),
                         (''alt'', py_get sat ''alt'' (PInt 550)),
                         (''velocity'', py_get sat ''velocity'' (PFloat 7.66)),
                         (''visibility'', PStr ''daylight''),
                         (''status'', PStr ''active'') ] # ps)
               else Some ps)
      | _ \<Rightarrow> None)"

definition process_aviation_edge_data :: "pydict list \<Rightarrow> datetime \<Rightarrow> snapshot option" where
  "process_aviation_edge_data rows current_time =
     (case aviation_loop rows of
        None \<Rightarrow> None
      | Some ps \<Rightarrow>
          Some \<lparr> timestamp = current_time,
                 satellite_count = int (length ps),
                 positions_calculated = int (length ps),
                 positions = ps,
                 data_source = ''aviation_edge_premium'',
                 tle_age_hours = 0.1,
                 note_field = None,
                 coverage = None \<rparr>)"

definition aviation_edge_data :: "enhanced_collector \<Rightarrow> network \<Rightarrow> snapshot option" where
  "aviation_edge_data c net =
     (case aviation_edge_key c of
        None \<Rightarrow> None
      | Some key \<Rightarrow>
          if key = [] then None
          else
            (case aviation_reply net of
               Raised \<Rightarrow> None
             | Reply status rows \<Rightarrow>
                 if status = 200 then process_aviation_edge_data rows (utcnow net) else None))"

definition spacetrack_data :: "network \<Rightarrow> snapshot option" where
  "spacetrack_data net =
     (if authenticate (spacetrack net) then Some (st_get_starlink_constellation (spacetrack net))
      else None)"

definition celestrak_data :: "network \<Rightarrow> snapshot option" where
  "celestrak_data net =
     Some (fst (sc_get_starlink_constellation init_satellite_collector (celestrak net)))"

definition providers_of :: "enhanced_collector \<Rightarrow> network \<Rightarrow> providers" where
  "providers_of c net =
     \<lparr> get_satellitemap_data = Returns (satellitemap_data c net),
       get_aviation_edge_data = Returns (aviation_edge_data c net),
       get_spacetrack_data = Returns (spacetrack_data net),
       get_celestrak_data = Returns (celestrak_data net) \<rparr>"

section \<open>The visibility query of the resolver (enhanced\_satellites.py)\<close>

definition float_of :: "pyval \<Rightarrow> exn + real" where
  "float_of v = (case v of PInt n \<Rightarrow> Inr (real_of_int n) | PFloat x \<Rightarrow> Inr x | _ \<Rightarrow> Inl TypeError)"

text \<open>
  The body of the loop of \<open>get_visible_satellites\<close> for one satellite: it raises, or it
  yields the entry to append, if any. The method has no handler.
\<close>

definition enhanced_visible_entry :: "real \<Rightarrow> real \<Rightarrow> real \<Rightarrow> pydict \<Rightarrow> exn + pydict option" where
  "enhanced_visible_entry lat lon elevation_min sat =
     then_r (float_of (py_get sat ''lat'' (PInt 0))) (\<lambda>sat_lat.
     then_r (float_of (py_get sat ''lng'' (PInt 0))) (\<lambda>sat_lng.
       (let dlat = radians (sat_lat - lat);
            dlng = radians (sat_lng - lon);
            a = sin (dlat / 2) * sin (dlat / 2)
                + cos (radians lat) * cos (radians sat_lat) * sin (dlng / 2) * sin (dlng / 2)
        in then_r (py_sqrt a) (\<lambda>sa.
           then_r (py_sqrt (1 - a)) (\<lambda>sb.
             (let distance = 2 * py_atan2 sa sb * 6371
              in if distance < 2000 then
                   (let elevation = max 0 (90 - distance / 100)
                    in if elevation_min \<le> elevation then
                         Inr (Some (py_set (py_set sat ''elevation'' (PFloat elevation))
                                      ''distance'' (PFloat distance)))
                       else Inr None)
                 else Inr None))))))"

fun enhanced_visible_loop :: "real \<Rightarrow> real \<Rightarrow> real \<Rightarrow> pydict list \<Rightarrow> exn + pydict list" where
  "enhanced_visible_loop lat lon elevation_min [] = Inr []"
| "enhanced_visible_loop lat lon elevation_min (sat # sats) =
     (case enhanced_visible_entry lat lon elevation_min sat of
        Inl e \<Rightarrow> Inl e
      | Inr entry \<Rightarrow>
          (case enhanced_visible_loop lat lon elevation_min sats of
             Inl e \<Rightarrow> Inl e
           | Inr visible \<Rightarrow>
               Inr (case entry of None \<Rightarrow> visible | Some v \<Rightarrow> v # visible)))"

definition get_visible_satellites ::
  "enhanced_collector \<Rightarrow> providers \<Rightarrow> clock_readings \<Rightarrow> real \<Rightarrow> real \<Rightarrow> real
     \<Rightarrow> (exn + pydict list) \<times> enhanced_collector" where
  "get_visible_satellites c env clk lat lon elevation_min =
     (case get_starlink_constellation c env clk of
        (constellation, c', invoked) \<Rightarrow>
          (case enhanced_visible_loop lat lon elevation_min (positions constellation) of
             Inl e \<Rightarrow> (Inl e, c')
           | Inr visible \<Rightarrow> (Inr (py_sort_reverse (number_at ''elevation'') visible), c')))"

section \<open>The refresh loop's lifecycle (app.py)\<close>

text \<open>
  The attributes of a \<open>MonitoringService\<close>. The two attributes that the loop creates on
  its first round are \<open>None\<close> until then; line 93 treats a missing
  \<open>_cached_satellite_data\<close> and the empty dictionary alike, and so does \<open>None\<close> here.
\<close>

record monitoring_service =
  running :: bool
  update_interval :: int
  satellite_counter :: "int option"
  cached_satellite_data :: "snapshot option"

definition init_service :: monitoring_service where
  "init_service =
     \<lparr> running = False, update_interval = 10, satellite_counter = None,
       cached_satellite_data = None \<rparr>"

text \<open>
  \<open>start\<close> hands \<open>_monitoring_loop\<close> to a daemon thread that nothing joins or keeps a
  reference to, so the state of the program is the service together with the threads
  that are inside \<open>_monitoring_loop\<close>, in the order of their creation. Such a thread is
  either about to evaluate \<open>while self.running\<close>, or inside the body of the loop, which
  ends with a \<open>time.sleep\<close> in every case.
\<close>

datatype loop_point = AtTest | InBody

record runtime =
  monitor :: monitoring_service
  loops :: "loop_point list"

definition init_runtime :: runtime where
  "init_runtime = \<lparr> monitor = init_service, loops = [] \<rparr>"

text \<open>\<open>start\<close> tests the flag only; \<open>stop\<close> only clears it.\<close>

definition start :: "runtime \<Rightarrow> runtime" where
  "start p =
     (if running (monitor p) then p
      else p \<lparr> monitor := (monitor p) \<lparr> running := True \<rparr>, loops := loops p @ [AtTest] \<rparr>)"

definition stop :: "runtime \<Rightarrow> runtime" where
  "stop p = p \<lparr> monitor := (monitor p) \<lparr> running := False \<rparr> \<rparr>"

text \<open>
  What one round of the body meets: \<open>starlink_collector.get_status()\<close> raises, before
  any attribute is written; or \<open>get_starlink_constellation()\<close> raises, after the counter
  is written; or the snapshot is collected and stored. What the round emits to the
  clients is not part of the state.
\<close>

datatype round_outcome = StatusRaised | ConstellationRaised | Collected snapshot

definition next_counter :: "monitoring_service \<Rightarrow> int option" where
  "next_counter s = (case satellite_counter s of None \<Rightarrow> Some 0 | Some n \<Rightarrow> Some (n + 1))"

definition run_body :: "round_outcome \<Rightarrow> monitoring_service \<Rightarrow> monitoring_service" where
  "run_body outcome s =
     (case outcome of
        StatusRaised \<Rightarrow> s
      | ConstellationRaised \<Rightarrow> s \<lparr> satellite_counter := next_counter s \<rparr>
      | Collected d \<Rightarrow> s \<lparr> satellite_counter := next_counter s, cached_satellite_data := Some d \<rparr>)"

text \<open>
  The next step of the thread at position \<open>i\<close>. At the test it reads the flag: when the
  flag is set it runs the body up to the sleep, when it is clear the loop ends and the
  thread is gone. From inside the body the sleep ends and the thread is back at the test.
\<close>

definition loop_step :: "nat \<Rightarrow> round_outcome \<Rightarrow> runtime \<Rightarrow> runtime" where
  "loop_step i outcome p =
     (if i < length (loops p) then
        (case loops p ! i of
           AtTest \<Rightarrow>
             if running (monitor p)
             then p \<lparr> monitor := run_body outcome (monitor p), loops := (loops p)[i := InBody] \<rparr>
             else p \<lparr> loops := take i (loops p) @ drop (Suc i) (loops p) \<rparr>
         | InBody \<Rightarrow> p \<lparr> loops := (loops p)[i := AtTest] \<rparr>)
      else p)"

section \<open>Notions used in the statements\<close>

text \<open>
  A provider has failed when it raised, returned \<open>None\<close>, or returned a snapshot whose
  list of positions is empty: the three cases in which the loop of the resolver goes on
  to the next name.
\<close>

definition failed :: "provider_outcome \<Rightarrow> bool" where
  "failed r = (case r of Raises \<Rightarrow> True | Returns None \<Rightarrow> True | Returns (Some d) \<Rightarrow> positions d = [])"

text \<open>
  The values of \<open>data_source\<close> that the provider behind a name of the priority list
  writes into its snapshots.
\<close>

definition written_tags :: "string \<Rightarrow> string set" where
  "written_tags source =
     (if source = ''satellitemap_enhanced'' then {''satellitemap_enhanced''}
      else if source = ''aviation_edge'' then {''aviation_edge_premium''}
      else if source = ''space_track'' then {''spacetrack_sgp4'', ''sample_data''}
      else {''celestrak_tle'', ''sample_data''})"

text \<open>The count of a snapshot is the length of its list of positions.\<close>

definition counts_agree :: "snapshot \<Rightarrow> bool" where
  "counts_agree s = (positions_calculated s = int (length (positions s)))"

definition cache_ok :: "enhanced_collector \<Rightarrow> bool" where
  "cache_ok c = (case cached_data c of None \<Rightarrow> True | Some d \<Rightarrow> counts_agree d)"

text \<open>
  Two outages. In both the collector holds no key for the first two services. In the
  first the Space-Track login succeeds and the query is refused; in the second there
  are no Space-Track credentials and the CelesTrak request raises.
\<close>

definition no_credentials :: st_world where
  "no_credentials =
     \<lparr> st_username = None, st_password = None, login_reply = Raised, query_reply = Raised,
       twoline2rv_ok = (\<lambda>l1 l2. False), sgp4 = (\<lambda>r t. (1, (0, 0, 0), (0, 0, 0))),
       st_utc_now = 0, st_time_fetched = 0, st_time_age = 0, st_epoch_clock = (\<lambda>i. 0) \<rparr>"

definition refused_query :: st_world where
  "refused_query =
     no_credentials \<lparr> st_username := Some ''user'', st_password := Some ''secret'',
                      login_reply := Reply 200 (), query_reply := Reply 500 [] \<rparr>"

definition unreachable_celestrak :: tle_world where
  "unreachable_celestrak =
     \<lparr> tle_reply = Raised, time_should = 0, time_fetched = 0, time_age = 0, utc_now = 0,
       epoch_clock = (\<lambda>i. 0) \<rparr>"

definition outage_a :: network where
  "outage_a =
     \<lparr> satellitemap_reply = Raised, draws = (\<lambda>i. (0, 0, 0)), aviation_reply = Raised,
       utcnow = 0, spacetrack = refused_query, celestrak = unreachable_celestrak \<rparr>"

definition outage_b :: network where
  "outage_b = outage_a \<lparr> spacetrack := no_credentials \<rparr>"

section \<open>Lifecycle theorems\<close>

text \<open>What the guard of \<open>start\<close> and the assignment of \<open>stop\<close> give, in terms of the flag.\<close>

lemma start_when_flag_set: "running (monitor p) \<Longrightarrow> start p = p"
  by (simp add: start_def)

lemma stop_when_flag_clear: "\<not> running (monitor p) \<Longrightarrow> stop p = p"
  by (simp add: stop_def)

lemma start_adds_at_most_one: "length (loops (start p)) \<le> Suc (length (loops p))"
  by (simp add: start_def)

text \<open>
  Claim C8. The claim fails on the code for \<open>start\<close>. The flag is not the loop: \<open>stop\<close>
  clears the flag while the thread of the loop is still inside the body, asleep, and a
  \<open>start\<close> that comes before that thread wakes finds the flag clear, sets it and starts a
  second thread. When the first thread wakes it finds the flag set again and goes on, so
  that from then on two monitoring threads run, both inside the body.
\<close>

theorem restart_spawns_second_loop:
  "loops (loop_step 0 (Collected (get_fallback_data 0)) (start init_runtime)) = [InBody]
   \<and> loops (start (stop (loop_step 0 (Collected (get_fallback_data 0)) (start init_runtime))))
       = [InBody, AtTest]
   \<and> running (monitor (start (stop (loop_step 0 (Collected (get_fallback_data 0))
         (start init_runtime)))))
   \<and> loops (loop_step 1 (Collected (get_fallback_data 2))
         (loop_step 0 (Collected (get_fallback_data 1))
           (loop_step 0 (Collected (get_fallback_data 1))
             (start (stop (loop_step 0 (Collected (get_fallback_data 0))
               (start init_runtime)))))))
       = [InBody, InBody]"
  by (simp add: start_def stop_def loop_step_def init_runtime_def init_service_def run_body_def)

section \<open>The resolver: priority order, cache and fallback\<close>

lemma usable_None_iff: "usable r = None \<longleftrightarrow> failed r"
  by (auto simp: usable_def failed_def split: provider_outcome.splits option.splits)

lemma usable_Some: "r = Returns (Some d) \<Longrightarrow> positions d \<noteq> [] \<Longrightarrow> usable r = Some d"
  by (simp add: usable_def)

lemma try_sources_first:
  "K < length srcs \<Longrightarrow> (\<And>s. s \<in> set (take K srcs) \<Longrightarrow> usable (call_provider env s) = None)
   \<Longrightarrow> usable (call_provider env (srcs ! K)) = Some d
   \<Longrightarrow> try_sources env srcs = (Some d, take (Suc K) srcs)"
proof (induction srcs arbitrary: K)
  case Nil
  then show ?case by simp
next
  case (Cons s srcs)
  show ?case
  proof (cases K)
    case 0
    with Cons.prems show ?thesis by simp
  next
    case (Suc k)
    have h0: "usable (call_provider env s) = None"
      using Cons.prems(2) [of s] Suc by simp
    have "try_sources env srcs = (Some d, take (Suc k) srcs)"
    proof (rule Cons.IH)
      show "k < length srcs" using Cons.prems(1) Suc by simp
      show "usable (call_provider env x) = None" if "x \<in> set (take k srcs)" for x
        using Cons.prems(2) [of x] that Suc by simp
      show "usable (call_provider env (srcs ! k)) = Some d"
        using Cons.prems(3) Suc by simp
    qed
    with h0 Suc show ?thesis by simp
  qed
qed

lemma try_sources_none:
  "(\<And>s. s \<in> set srcs \<Longrightarrow> usable (call_provider env s) = None)
   \<Longrightarrow> try_sources env srcs = (None, srcs)"
  by (induction srcs) simp_all

lemma cache_hit:
  "at_check clk' - t < cache_duration c \<Longrightarrow>
   get_starlink_constellation (cache_data c d t) env' clk' = (d, cache_data c d t, [])"
  by (simp add: get_starlink_constellation_def is_cache_valid_def cache_data_def)

lemma fallback_source: "data_source (get_fallback_data t) = ''enhanced_fallback''"
  by (simp add: get_fallback_data_def)

lemma fallback_positions: "length (positions (get_fallback_data t)) = 12"
  by (simp add: get_fallback_data_def)

lemma sample_source: "data_source (get_sample_satellite_data t) = ''sample_data''"
  by (simp add: get_sample_satellite_data_def)

lemma sample_counts: "counts_agree (get_sample_satellite_data t)"
  by (simp add: counts_agree_def get_sample_satellite_data_def)

lemma fallback_counts: "counts_agree (get_fallback_data t)"
  by (simp add: counts_agree_def get_fallback_data_def)

lemma sc_source:
  "data_source (fst (sc_get_starlink_constellation sc w)) \<in> {''celestrak_tle'', ''sample_data''}"
  by (simp add: sc_get_starlink_constellation_def sample_source Let_def split: prod.splits)

lemma sc_counts: "counts_agree (fst (sc_get_starlink_constellation sc w))"
  by (simp add: sc_get_starlink_constellation_def sample_counts Let_def split: prod.splits)
     (simp add: counts_agree_def)

lemma st_source:
  "data_source (st_get_starlink_constellation w) \<in> {''spacetrack_sgp4'', ''sample_data''}"
  by (simp add: st_get_starlink_constellation_def sample_source Let_def split: option.splits prod.splits)

lemma st_counts: "counts_agree (st_get_starlink_constellation w)"
  by (simp add: st_get_starlink_constellation_def sample_counts Let_def split: option.splits prod.splits)
     (simp add: counts_agree_def)

lemma satellitemap_source:
  "satellitemap_data c net = Some s \<Longrightarrow> data_source s = ''satellitemap_enhanced''"
  by (auto simp: satellitemap_data_def Let_def split: option.splits reply.splits if_splits)

lemma satellitemap_counts: "satellitemap_data c net = Some s \<Longrightarrow> counts_agree s"
  by (auto simp: satellitemap_data_def Let_def counts_agree_def split: option.splits reply.splits if_splits)

lemma process_aviation_source:
  "process_aviation_edge_data rows t = Some s \<Longrightarrow> data_source s = ''aviation_edge_premium''"
  by (auto simp: process_aviation_edge_data_def split: option.splits)

lemma process_aviation_counts: "process_aviation_edge_data rows t = Some s \<Longrightarrow> counts_agree s"
  by (auto simp: process_aviation_edge_data_def counts_agree_def split: option.splits)

lemma aviation_source:
  "aviation_edge_data c net = Some s \<Longrightarrow> data_source s = ''aviation_edge_premium''"
  by (auto simp: aviation_edge_data_def process_aviation_source split: option.splits reply.splits if_splits)

lemma aviation_counts: "aviation_edge_data c net = Some s \<Longrightarrow> counts_agree s"
  by (auto simp: aviation_edge_data_def process_aviation_counts split: option.splits reply.splits if_splits)

lemma provider_tag:
  "call_provider (providers_of c net) source = Returns (Some d) \<Longrightarrow> data_source d \<in> written_tags source"
  using sc_source [of init_satellite_collector "celestrak net"] st_source [of "spacetrack net"]
  by (auto simp: call_provider_def providers_of_def written_tags_def satellitemap_source
        aviation_source spacetrack_data_def celestrak_data_def split: if_splits)

lemma provider_counts:
  "call_provider (providers_of c net) source = Returns (Some d) \<Longrightarrow> counts_agree d"
  using sc_counts [of init_satellite_collector "celestrak net"] st_counts [of "spacetrack net"]
  by (auto simp: call_provider_def providers_of_def satellitemap_counts
        aviation_counts spacetrack_data_def celestrak_data_def split: if_splits)

lemma usable_Returns: "usable r = Some d \<Longrightarrow> r = Returns (Some d)"
  by (auto simp: usable_def split: provider_outcome.splits option.splits if_splits)

lemma try_sources_from:
  "try_sources env srcs = (Some d, invoked) \<Longrightarrow> \<exists>s. call_provider env s = Returns (Some d)"
proof (induction srcs arbitrary: invoked)
  case Nil
  then show ?case by simp
next
  case (Cons s srcs)
  show ?case
  proof (cases "usable (call_provider env s)")
    case None
    then show ?thesis using Cons by (auto split: prod.splits)
  next
    case (Some d')
    then have "d' = d" using Cons.prems by simp
    then show ?thesis using Some usable_Returns by blast
  qed
qed

lemma resolver_counts:
  assumes "cache_ok c"
  shows "counts_agree (fst (get_starlink_constellation c (providers_of c net) clk))
       \<and> cache_ok (fst (snd (get_starlink_constellation c (providers_of c net) clk)))"
proof (cases "is_cache_valid c (at_check clk)")
  case True
  then obtain d where d: "cached_data c = Some d"
    by (auto simp: is_cache_valid_def split: option.splits)
  then have "counts_agree d" using assms by (simp add: cache_ok_def)
  then show ?thesis using True d assms by (simp add: get_starlink_constellation_def)
next
  case False
  show ?thesis
  proof (cases "try_sources (providers_of c net) (data_sources c)")
    case (Pair r invoked)
    show ?thesis
    proof (cases r)
      case None
      then show ?thesis using False Pair assms
        by (simp add: get_starlink_constellation_def fallback_counts)
    next
      case (Some d)
      then have "counts_agree d" using Pair try_sources_from provider_counts by blast
      then show ?thesis using False Pair Some
        by (simp add: get_starlink_constellation_def cache_ok_def cache_data_def)
    qed
  qed
qed

text \<open>
  Claim C1. When the cache is not valid, the first \<open>K\<close> providers of the priority list
  fail and the next one returns a snapshot with a non-empty list of positions, the
  resolver returns that snapshot, has invoked exactly the first \<open>K + 1\<close> providers in
  order, and stores the snapshot with the time of storing; every later call whose clock
  reading is less than \<open>cache_duration\<close> after that time returns the stored snapshot and
  invokes no provider. The snapshot is returned as the provider built it: its
  \<open>data_source\<close> is the tag that the provider wrote, one of \<open>written_tags\<close>, which for
  the Space-Track and CelesTrak providers may be \<open>sample_data\<close>.
\<close>

theorem resolver_first_success:
  assumes "\<not> is_cache_valid c (at_check clk)"
    and "K < length (data_sources c)"
    and "\<forall>s \<in> set (take K (data_sources c)). failed (call_provider env s)"
    and "call_provider env (data_sources c ! K) = Returns (Some d)"
    and "positions d \<noteq> []"
  shows "get_starlink_constellation c env clk
           = (d, cache_data c d (at_end clk), take (Suc K) (data_sources c))
       \<and> (\<forall>env' clk'. at_check clk' - at_end clk < cache_duration c \<longrightarrow>
            get_starlink_constellation (cache_data c d (at_end clk)) env' clk'
              = (d, cache_data c d (at_end clk), []))
       \<and> (\<forall>net. env = providers_of c net \<longrightarrow> data_source d \<in> written_tags (data_sources c ! K))"
proof -
  have "try_sources env (data_sources c) = (Some d, take (Suc K) (data_sources c))"
    using assms(2-5) by (intro try_sources_first) (simp_all add: usable_None_iff usable_Some)
  then have "get_starlink_constellation c env clk
           = (d, cache_data c d (at_end clk), take (Suc K) (data_sources c))"
    using assms(1) by (simp add: get_starlink_constellation_def)
  moreover have "\<forall>net. env = providers_of c net \<longrightarrow> data_source d \<in> written_tags (data_sources c ! K)"
    using assms(4) provider_tag by blast
  ultimately show ?thesis
    using cache_hit [of _ "at_end clk" c d] by blast
qed

theorem resolver_first_success_witness:
  "get_starlink_constellation (init_collector None None)
      (providers_of (init_collector None None) outage_a) \<lparr> at_check = 0, at_end = 0 \<rparr>
     = (get_sample_satellite_data 0,
        cache_data (init_collector None None) (get_sample_satellite_data 0) 0,
        [''satellitemap_enhanced'', ''aviation_edge'', ''space_track''])
   \<and> get_starlink_constellation
        (cache_data (init_collector None None) (get_sample_satellite_data 0) 0)
        (providers_of (init_collector None None) outage_b) \<lparr> at_check = 299999999, at_end = 299999999 \<rparr>
     = (get_sample_satellite_data 0,
        cache_data (init_collector None None) (get_sample_satellite_data 0) 0, [])"
  using resolver_first_success [of "init_collector None None" "\<lparr> at_check = 0, at_end = 0 \<rparr>" 2
      "providers_of (init_collector None None) outage_a" "get_sample_satellite_data 0"]
  by (simp add: init_collector_def is_cache_valid_def failed_def call_provider_def providers_of_def
        satellitemap_data_def aviation_edge_data_def spacetrack_data_def outage_a_def
        refused_query_def no_credentials_def authenticate_def st_get_starlink_constellation_def
        st_fetch_def get_sample_satellite_data_def cache_data_def)

text \<open>
  Two runs of the resolver in which the provider that succeeds is the third and the
  fourth of the list, and the snapshot carries the same \<open>data_source\<close> in both: the
  field does not tell which provider answered.
\<close>

theorem data_source_not_provider:
  "snd (snd (get_starlink_constellation (init_collector None None)
        (providers_of (init_collector None None) outage_a) \<lparr> at_check = 0, at_end = 0 \<rparr>))
     = [''satellitemap_enhanced'', ''aviation_edge'', ''space_track'']
   \<and> data_source (fst (get_starlink_constellation (init_collector None None)
        (providers_of (init_collector None None) outage_a) \<lparr> at_check = 0, at_end = 0 \<rparr>))
     = ''sample_data''
   \<and> snd (snd (get_starlink_constellation (init_collector None None)
        (providers_of (init_collector None None) outage_b) \<lparr> at_check = 0, at_end = 0 \<rparr>))
     = [''satellitemap_enhanced'', ''aviation_edge'', ''space_track'', ''celestrak_fallback'']
   \<and> data_source (fst (get_starlink_constellation (init_collector None None)
        (providers_of (init_collector None None) outage_b) \<lparr> at_check = 0, at_end = 0 \<rparr>))
     = ''sample_data''"
  by (simp add: get_starlink_constellation_def init_collector_def is_cache_valid_def usable_def
        call_provider_def providers_of_def satellitemap_data_def aviation_edge_data_def
        spacetrack_data_def celestrak_data_def outage_a_def outage_b_def refused_query_def
        no_credentials_def unreachable_celestrak_def authenticate_def
        st_get_starlink_constellation_def st_fetch_def sc_get_starlink_constellation_def
        should_update_tle_def init_satellite_collector_def fetch_starlink_tle_data_def
        get_sample_satellite_data_def)

text \<open>
  Claim C2. When the cache is not valid and every provider of the list fails, the
  resolver returns the built-in snapshot, after invoking all of them, and leaves the
  cache as it was. That snapshot has twelve positions and its \<open>data_source\<close> is
  \<open>enhanced_fallback\<close>.
\<close>

theorem resolver_all_fail:
  assumes "\<not> is_cache_valid c (at_check clk)"
    and "\<forall>s \<in> set (data_sources c). failed (call_provider env s)"
  shows "get_starlink_constellation c env clk = (get_fallback_data (at_end clk), c, data_sources c)
       \<and> data_source (get_fallback_data (at_end clk)) = ''enhanced_fallback''
       \<and> length (positions (get_fallback_data (at_end clk))) = 12"
proof -
  have "try_sources env (data_sources c) = (None, data_sources c)"
    using assms(2) by (intro try_sources_none) (simp add: usable_None_iff)
  then show ?thesis
    using assms(1) by (simp add: get_starlink_constellation_def fallback_source fallback_positions)
qed

theorem resolver_all_fail_witness:
  "get_starlink_constellation (init_collector None None)
      \<lparr> get_satellitemap_data = Raises, get_aviation_edge_data = Returns None,
        get_spacetrack_data = Raises, get_celestrak_data = Returns None \<rparr>
      \<lparr> at_check = 0, at_end = 7 \<rparr>
     = (get_fallback_data 7, init_collector None None,
        [''satellitemap_enhanced'', ''aviation_edge'', ''space_track'', ''celestrak_fallback''])
   \<and> data_source (get_fallback_data 7) = ''enhanced_fallback''
   \<and> length (positions (get_fallback_data 7)) = 12"
  using resolver_all_fail [of "init_collector None None" "\<lparr> at_check = 0, at_end = 7 \<rparr>"
      "\<lparr> get_satellitemap_data = Raises, get_aviation_edge_data = Returns None,
        get_spacetrack_data = Raises, get_celestrak_data = Returns None \<rparr>"]
  by (simp add: init_collector_def is_cache_valid_def failed_def call_provider_def)

text \<open>The tag of the built-in snapshot is not \<open>fallback\<close>.\<close>

theorem fallback_tag_differs:
  "data_source (fst (get_starlink_constellation (init_collector None None)
      \<lparr> get_satellitemap_data = Raises, get_aviation_edge_data = Raises,
        get_spacetrack_data = Raises, get_celestrak_data = Raises \<rparr>
      \<lparr> at_check = 0, at_end = 0 \<rparr>)) \<noteq> ''fallback''"
  by (simp add: get_starlink_constellation_def init_collector_def is_cache_valid_def usable_def
        call_provider_def get_fallback_data_def)

section \<open>The count of positions\<close>

text \<open>
  Claim C9. In every snapshot that the collectors build, \<open>positions_calculated\<close> is the
  length of \<open>positions\<close>: the built-in and the sample snapshots, those of the CelesTrak
  and Space-Track collectors, of the two web services, and hence whatever the resolver
  returns and stores, provided that what its cache held before had the property.
\<close>

theorem positions_calculated_counts:
  "counts_agree (get_fallback_data t)
   \<and> counts_agree (get_sample_satellite_data t)
   \<and> counts_agree (fst (sc_get_starlink_constellation sc w))
   \<and> counts_agree (st_get_starlink_constellation sw)
   \<and> (\<forall>s. satellitemap_data c net = Some s \<longrightarrow> counts_agree s)
   \<and> (\<forall>s. process_aviation_edge_data rows t = Some s \<longrightarrow> counts_agree s)
   \<and> (cache_ok c \<longrightarrow>
        counts_agree (fst (get_starlink_constellation c (providers_of c net) clk))
        \<and> cache_ok (fst (snd (get_starlink_constellation c (providers_of c net) clk))))"
  using fallback_counts sample_counts sc_counts st_counts satellitemap_counts
    process_aviation_counts resolver_counts by blast



end
